theory Spec2Isabelle
  imports Main "HOL-Library.Word"
begin

section \<open>Data model\<close>

text \<open>
  The source (\<^verbatim>\<open>src/main.cpp\<close>) declares
  \<^verbatim>\<open>struct Data { uint32_t a; uint32_t d; };\<close>
  Both fields are 32-bit unsigned machine integers; no invariant restricts them.
\<close>

type_synonym u32 = "32 word"

record Data =
  a :: u32
  d :: u32

text \<open>
  The only operation of the program that is undefined on some operands is \<^verbatim>\<open>%\<close>
  with a zero right operand. The model makes it a value, so that reaching it is
  visible in the result of every function that could.
\<close>

datatype trap = DivisionByZero

text \<open>
  \<^verbatim>\<open>foobar\<close> takes \<^verbatim>\<open>const Data&\<close>: it receives the location of the
  caller's object, not a copy. A reference is the location of an object and the
  store gives the object each reference designates (a C++ reference always
  designates one). Functions take the store and return it with their result.
\<close>

type_synonym ref = nat
type_synonym store = "ref \<Rightarrow> Data"

section \<open>Operations\<close>

text \<open>
  \<^verbatim>\<open>x % y\<close> on \<^verbatim>\<open>uint32_t\<close>: the remainder of the unsigned division,
  undefined for \<^verbatim>\<open>y == 0\<close>.
\<close>

definition umod :: "u32 \<Rightarrow> u32 \<Rightarrow> trap + u32" where
  "umod n m = (if m = 0 then Inl DivisionByZero else Inr (n mod m))"

text \<open>
  \<^verbatim>\<open>
  bool foobar(const Data& data) {
      if (! data.a || ! data.d) return false;

      uint32_t result = data.d % data.a;
      return result == 0;
  }
  \<close>
\<close>

definition foobar :: "ref \<Rightarrow> store \<Rightarrow> (trap + bool) \<times> store" where
  "foobar data s =
     (if a (s data) = 0 \<or> d (s data) = 0 then (Inr False, s)
      else (case umod (d (s data)) (a (s data)) of
              Inl t \<Rightarrow> (Inl t, s)
            | Inr result \<Rightarrow> (Inr (result = 0), s)))"

text \<open>
  The driver runs as a process. Besides the objects in its memory, a process has
  the command line it was started with, its environment and the files it can reach.
  \<open>calls\<close> records, in order, the pair that each call of \<^verbatim>\<open>foobar\<close> made
  by the process was given.
\<close>

record process =
  objects :: store
  argv :: "string list"
  environ :: "string list"
  files :: "string \<rightharpoonup> string"
  calls :: "Data list"

text \<open>
  A call of \<^verbatim>\<open>foobar\<close> from the process: the callee runs on the objects of
  the process, and the call is recorded.
\<close>

definition call_foobar :: "ref \<Rightarrow> process \<Rightarrow> (trap + bool) \<times> process" where
  "call_foobar data w =
     (let (result, s) = foobar data (objects w)
      in (result, w\<lparr>objects := s, calls := calls w @ [objects w data]\<rparr>))"

text \<open>
  The conversion of \<^verbatim>\<open>bool\<close> to \<^verbatim>\<open>int\<close> that \<^verbatim>\<open>return result\<close>
  applies in a function returning \<^verbatim>\<open>int\<close>: \<^verbatim>\<open>false\<close> becomes 0 and
  \<^verbatim>\<open>true\<close> becomes 1.
\<close>

definition int_of_bool :: "bool \<Rightarrow> int" where
  "int_of_bool b = (if b then 1 else 0)"

text \<open>
  \<^verbatim>\<open>
  int main() {
      Data data { .a = 5, .d = 55 };
      const auto result = foobar(data);
      return result;
  }
  \<close>
  \<open>driver\<close> is the body of \<^verbatim>\<open>main\<close> with the initialiser of the local object
  as its argument \<open>init\<close>; \<^verbatim>\<open>main\<close> is the driver at the initialiser of the
  source. The argument \<open>data\<close> is the location of the local object of that name.
  The value returned is the exit status of the process.
\<close>

definition driver :: "Data \<Rightarrow> ref \<Rightarrow> process \<Rightarrow> (trap + int) \<times> process" where
  "driver init data w =
     (let w1 = w\<lparr>objects := (objects w)(data := init)\<rparr>;
          (result, w2) = call_foobar data w1
      in (case result of
            Inl t \<Rightarrow> (Inl t, w2)
          | Inr b \<Rightarrow> (Inr (int_of_bool b), w2)))"

definition main :: "ref \<Rightarrow> process \<Rightarrow> (trap + int) \<times> process" where
  "main = driver \<lparr>a = 5, d = 55\<rparr>"

section \<open>The predicate\<close>

text \<open>
  What a call returns and leaves behind, on the words themselves. Every later
  proof goes through this equation.
\<close>

lemma foobar_eq:
  "foobar p s = (Inr (a (s p) \<noteq> 0 \<and> d (s p) \<noteq> 0 \<and> d (s p) mod a (s p) = 0), s)"
  by (simp add: foobar_def umod_def)

lemma word_mod_eq_0_unat:
  "(y mod x = 0) = (unat y mod unat x = 0)" for x y :: u32
  by (simp add: unat_eq_0 flip: unat_mod)

text \<open>
  C1. For every pair \<open>(a, d)\<close> of unsigned 32-bit integers the predicate returns
  true exactly when \<open>a\<close> is nonzero, \<open>d\<close> is nonzero and \<open>d mod a\<close> is 0, the
  remainder being that of the unsigned values. On \<open>(5, 55)\<close> it returns true and
  on \<open>(5, 56)\<close> false.
\<close>

theorem foobar_iff_divides:
  "fst (foobar p s) =
     Inr (unat (a (s p)) \<noteq> 0 \<and> unat (d (s p)) \<noteq> 0 \<and>
          unat (d (s p)) mod unat (a (s p)) = 0)
   \<and> fst (foobar p (s(p := \<lparr>a = 5, d = 55\<rparr>))) = Inr True
   \<and> fst (foobar p (s(p := \<lparr>a = 5, d = 56\<rparr>))) = Inr False"
proof -
  have general: "fst (foobar p s) =
     Inr (unat (a (s p)) \<noteq> 0 \<and> unat (d (s p)) \<noteq> 0 \<and>
          unat (d (s p)) mod unat (a (s p)) = 0)"
    by (simp add: foobar_eq word_mod_eq_0_unat unat_eq_0)
  have yes: "fst (foobar p (s(p := \<lparr>a = 5, d = 55\<rparr>))) = Inr True"
    by (simp add: foobar_eq)
  have no: "fst (foobar p (s(p := \<lparr>a = 5, d = 56\<rparr>))) = Inr False"
    by (simp add: foobar_eq)
  from general yes no show ?thesis by blast
qed

text \<open>
  C2. If \<open>a\<close> is 0 the predicate returns false whatever \<open>d\<close> is, and if \<open>d\<close> is 0
  it returns false whatever \<open>a\<close> is.
\<close>

theorem foobar_zero_field:
  "fst (foobar p (s(p := \<lparr>a = 0, d = y\<rparr>))) = Inr False
   \<and> fst (foobar p (s(p := \<lparr>a = x, d = 0\<rparr>))) = Inr False"
  by (simp add: foobar_eq)

text \<open>
  C3. The predicate is total and never traps: every call returns a boolean, never
  the division trap. Each call takes one of two paths: the guard returns false
  because a field is 0, or \<open>a\<close> is nonzero and the remainder is computed, which
  then succeeds.
\<close>

theorem foobar_never_traps:
  "(\<exists>b. fst (foobar p s) = Inr b)
   \<and> fst (foobar p s) \<noteq> Inl DivisionByZero
   \<and> ((a (s p) = 0 \<or> d (s p) = 0) \<and> fst (foobar p s) = Inr False
      \<or> a (s p) \<noteq> 0 \<and>
        (\<exists>r. umod (d (s p)) (a (s p)) = Inr r \<and> fst (foobar p s) = Inr (r = 0)))"
proof -
  have returns: "\<exists>b. fst (foobar p s) = Inr b"
    by (simp add: foobar_eq)
  have no_trap: "fst (foobar p s) \<noteq> Inl DivisionByZero"
    by (simp add: foobar_eq)
  have paths: "(a (s p) = 0 \<or> d (s p) = 0) \<and> fst (foobar p s) = Inr False
      \<or> a (s p) \<noteq> 0 \<and>
        (\<exists>r. umod (d (s p)) (a (s p)) = Inr r \<and> fst (foobar p s) = Inr (r = 0))"
    by (cases "a (s p) = 0 \<or> d (s p) = 0") (auto simp: foobar_def umod_def)
  from returns no_trap paths show ?thesis by blast
qed

text \<open>
  C5. For every nonzero \<open>n\<close> the predicate returns true on the pair \<open>(n, n)\<close>.
\<close>

theorem foobar_self:
  "n \<noteq> 0 \<Longrightarrow> fst (foobar p (s(p := \<lparr>a = n, d = n\<rparr>))) = Inr True"
  by (simp add: foobar_eq)

theorem foobar_self_witness:
  "(7 :: u32) \<noteq> 0 \<and> fst (foobar 0 ((\<lambda>_. \<lparr>a = 0, d = 0\<rparr>)(0 := \<lparr>a = 7, d = 7\<rparr>))) = Inr True"
proof -
  have nz: "(7 :: u32) \<noteq> 0" by simp
  from nz foobar_self [OF nz, of 0 "\<lambda>_. \<lparr>a = 0, d = 0\<rparr>"] show ?thesis by blast
qed

text \<open>
  C6. For every nonzero \<open>d\<close> the predicate returns true on the pair \<open>(1, d)\<close>.
\<close>

theorem foobar_one:
  "y \<noteq> 0 \<Longrightarrow> fst (foobar p (s(p := \<lparr>a = 1, d = y\<rparr>))) = Inr True"
  by (simp add: foobar_eq)

theorem foobar_one_witness:
  "(56 :: u32) \<noteq> 0 \<and> fst (foobar 0 ((\<lambda>_. \<lparr>a = 0, d = 0\<rparr>)(0 := \<lparr>a = 1, d = 56\<rparr>))) = Inr True"
proof -
  have nz: "(56 :: u32) \<noteq> 0" by simp
  from nz foobar_one [OF nz, of 0 "\<lambda>_. \<lparr>a = 0, d = 0\<rparr>"] show ?thesis by blast
qed

text \<open>
  C7. The predicate is deterministic and stateless. A call on a pair with the same
  two fields returns the same result, wherever the pair is stored and whatever else
  the store holds; in particular a second call on the same pair, in the store the
  first call left, returns what the first returned.
\<close>

theorem foobar_deterministic:
  assumes "a (s' q) = a (s p)" and "d (s' q) = d (s p)"
  shows "fst (foobar q s') = fst (foobar p s)
         \<and> fst (foobar p (snd (foobar p s))) = fst (foobar p s)"
  using assms by (simp add: foobar_eq)

theorem foobar_deterministic_witness:
  "a (((\<lambda>_ :: ref. \<lparr>a = 0, d = 0\<rparr>)(3 := \<lparr>a = 5, d = 56\<rparr>)) 3)
       = a ((\<lambda>_ :: ref. \<lparr>a = 5, d = 56\<rparr>) 0)
   \<and> d (((\<lambda>_ :: ref. \<lparr>a = 0, d = 0\<rparr>)(3 := \<lparr>a = 5, d = 56\<rparr>)) 3)
       = d ((\<lambda>_ :: ref. \<lparr>a = 5, d = 56\<rparr>) 0)
   \<and> fst (foobar 3 ((\<lambda>_. \<lparr>a = 0, d = 0\<rparr>)(3 := \<lparr>a = 5, d = 56\<rparr>)))
       = fst (foobar 0 (\<lambda>_. \<lparr>a = 5, d = 56\<rparr>))
   \<and> fst (foobar 0 (snd (foobar 0 (\<lambda>_. \<lparr>a = 5, d = 56\<rparr>))))
       = fst (foobar 0 (\<lambda>_. \<lparr>a = 5, d = 56\<rparr>))"
proof -
  have fa: "a (((\<lambda>_ :: ref. \<lparr>a = 0, d = 0\<rparr>)(3 := \<lparr>a = 5, d = 56\<rparr>)) 3)
              = a ((\<lambda>_ :: ref. \<lparr>a = 5, d = 56\<rparr>) 0)"
    by simp
  have fd: "d (((\<lambda>_ :: ref. \<lparr>a = 0, d = 0\<rparr>)(3 := \<lparr>a = 5, d = 56\<rparr>)) 3)
              = d ((\<lambda>_ :: ref. \<lparr>a = 5, d = 56\<rparr>) 0)"
    by simp
  from fa fd
    foobar_deterministic [of "(\<lambda>_. \<lparr>a = 0, d = 0\<rparr>)(3 := \<lparr>a = 5, d = 56\<rparr>)" 3
      "\<lambda>_. \<lparr>a = 5, d = 56\<rparr>" 0]
  show ?thesis by blast
qed

text \<open>
  C8. The predicate has no side effects: a call returns the store it was given, so
  both fields of the caller's pair are what they were, and its result is a function
  of the two fields alone.
\<close>

theorem foobar_no_side_effects:
  "snd (foobar p s) = s
   \<and> a (snd (foobar p s) p) = a (s p)
   \<and> d (snd (foobar p s) p) = d (s p)
   \<and> (\<exists>f. \<forall>q t. fst (foobar q t) = f (a (t q)) (d (t q)))"
proof -
  have frame: "snd (foobar p s) = s"
    by (simp add: foobar_eq)
  have pure: "\<exists>f. \<forall>q t. fst (foobar q t) = f (a (t q)) (d (t q))"
    by (rule exI [of _ "\<lambda>x y. Inr (x \<noteq> 0 \<and> y \<noteq> 0 \<and> y mod x = 0)"]) (simp add: foobar_eq)
  from frame pure show ?thesis by simp
qed

text \<open>
  C9. Whenever the predicate returns true on a pair \<open>(a, d)\<close>, \<open>1 \<le> a\<close> and
  \<open>a \<le> d\<close> as unsigned integers; so for every pair with \<open>0 < d < a\<close> it returns
  false.
\<close>

theorem foobar_true_bounds:
  "(fst (foobar p s) = Inr True \<longrightarrow>
      1 \<le> unat (a (s p)) \<and> unat (a (s p)) \<le> unat (d (s p)))
   \<and> (0 < unat (d (s p)) \<and> unat (d (s p)) < unat (a (s p)) \<longrightarrow>
      fst (foobar p s) = Inr False)"
proof -
  have bounds: "1 \<le> unat (a (s p)) \<and> unat (a (s p)) \<le> unat (d (s p))"
    if "fst (foobar p s) = Inr True"
  proof -
    from that have nz_a: "unat (a (s p)) \<noteq> 0" and nz_d: "unat (d (s p)) \<noteq> 0"
      and rem: "unat (d (s p)) mod unat (a (s p)) = 0"
      by (simp_all add: foobar_eq word_mod_eq_0_unat unat_eq_0)
    from rem have "unat (a (s p)) dvd unat (d (s p))"
      by (simp add: dvd_eq_mod_eq_0)
    with nz_d have "unat (a (s p)) \<le> unat (d (s p))"
      by (simp add: dvd_imp_le)
    with nz_a show ?thesis by simp
  qed
  have below: "fst (foobar p s) = Inr False"
    if "0 < unat (d (s p)) \<and> unat (d (s p)) < unat (a (s p))"
  proof -
    have "fst (foobar p s) \<noteq> Inr True"
      using bounds that by auto
    then show ?thesis
      by (simp add: foobar_eq)
  qed
  from bounds below show ?thesis by blast
qed

theorem foobar_true_bounds_witness:
  "fst (foobar 0 (\<lambda>_. \<lparr>a = 5, d = 55\<rparr>)) = Inr True
   \<and> 1 \<le> unat (a ((\<lambda>_. \<lparr>a = 5, d = 55\<rparr>) (0 :: ref)))
   \<and> unat (a ((\<lambda>_. \<lparr>a = 5, d = 55\<rparr>) (0 :: ref))) \<le> unat (d ((\<lambda>_. \<lparr>a = 5, d = 55\<rparr>) (0 :: ref)))
   \<and> 0 < unat (d ((\<lambda>_. \<lparr>a = 7, d = 3\<rparr>) (0 :: ref)))
   \<and> unat (d ((\<lambda>_. \<lparr>a = 7, d = 3\<rparr>) (0 :: ref))) < unat (a ((\<lambda>_. \<lparr>a = 7, d = 3\<rparr>) (0 :: ref)))
   \<and> fst (foobar 0 (\<lambda>_. \<lparr>a = 7, d = 3\<rparr>)) = Inr False"
proof -
  have yes: "fst (foobar 0 (\<lambda>_. \<lparr>a = 5, d = 55\<rparr>)) = Inr True"
    by (simp add: foobar_def umod_def)
  have small: "0 < unat (d ((\<lambda>_. \<lparr>a = 7, d = 3\<rparr>) (0 :: ref)))
     \<and> unat (d ((\<lambda>_. \<lparr>a = 7, d = 3\<rparr>) (0 :: ref))) < unat (a ((\<lambda>_. \<lparr>a = 7, d = 3\<rparr>) (0 :: ref)))"
    by simp
  from yes small
    foobar_true_bounds [of 0 "\<lambda>_. \<lparr>a = 5, d = 55\<rparr>"]
    foobar_true_bounds [of 0 "\<lambda>_. \<lparr>a = 7, d = 3\<rparr>"]
  show ?thesis by blast
qed

section \<open>The driver\<close>

text \<open>
  What a run of the driver returns and leaves behind, for any initialiser.
\<close>

lemma driver_eq:
  "driver x p w =
     (Inr (int_of_bool (a x \<noteq> 0 \<and> d x \<noteq> 0 \<and> d x mod a x = 0)),
      w\<lparr>objects := (objects w)(p := x), calls := calls w @ [x]\<rparr>)"
  by (simp add: driver_def call_foobar_def foobar_eq)

text \<open>
  C4. The driver constructs one pair, calls the predicate exactly once, on that
  pair, and the exit status is the boolean that call returned: 0 for false and 1
  for true. This holds for every initialiser of the pair, and \<^verbatim>\<open>main\<close> is the
  driver at the fixed pair \<open>(5, 55)\<close>: its one call is on that pair. The run
  writes the pair it constructs and nothing else: the command line, the
  environment and the files are what they were. The exit status does not depend
  on them, nor on anything else of the process it starts in.
\<close>

theorem main_exit_status:
  "(\<exists>b. fst (foobar p ((objects w)(p := x))) = Inr b
        \<and> fst (driver x p w) = Inr (if b then 1 else 0))
   \<and> int_of_bool False = 0 \<and> int_of_bool True = 1
   \<and> calls (snd (driver x p w)) = calls w @ [x]
   \<and> snd (driver x p w) = w\<lparr>objects := (objects w)(p := x), calls := calls w @ [x]\<rparr>
   \<and> argv (snd (driver x p w)) = argv w
   \<and> environ (snd (driver x p w)) = environ w
   \<and> files (snd (driver x p w)) = files w
   \<and> fst (driver x p w) = fst (driver x p' w')
   \<and> main p w = driver \<lparr>a = 5, d = 55\<rparr> p w
   \<and> calls (snd (main p w)) = calls w @ [\<lparr>a = 5, d = 55\<rparr>]
   \<and> fst (main p w) = fst (main p' w')"
proof -
  have "fst (foobar p ((objects w)(p := x))) = Inr (a x \<noteq> 0 \<and> d x \<noteq> 0 \<and> d x mod a x = 0)
        \<and> fst (driver x p w) = Inr (if a x \<noteq> 0 \<and> d x \<noteq> 0 \<and> d x mod a x = 0 then 1 else 0)"
    by (simp add: driver_eq foobar_eq int_of_bool_def)
  then have status: "\<exists>b. fst (foobar p ((objects w)(p := x))) = Inr b
        \<and> fst (driver x p w) = Inr (if b then 1 else 0)"
    by (rule exI)
  have conv: "int_of_bool False = 0 \<and> int_of_bool True = 1"
    by (simp add: int_of_bool_def)
  have once: "calls (snd (driver x p w)) = calls w @ [x]"
    by (simp add: driver_eq)
  have frame: "snd (driver x p w) = w\<lparr>objects := (objects w)(p := x), calls := calls w @ [x]\<rparr>"
    by (simp add: driver_eq)
  have outside: "argv (snd (driver x p w)) = argv w
      \<and> environ (snd (driver x p w)) = environ w
      \<and> files (snd (driver x p w)) = files w"
    by (simp add: driver_eq)
  have closed: "fst (driver x p w) = fst (driver x p' w')"
    by (simp add: driver_eq)
  have fixed: "main p w = driver \<lparr>a = 5, d = 55\<rparr> p w"
    by (simp add: main_def)
  have once_main: "calls (snd (main p w)) = calls w @ [\<lparr>a = 5, d = 55\<rparr>]"
    by (simp add: main_def driver_eq)
  have closed_main: "fst (main p w) = fst (main p' w')"
    by (simp add: main_def driver_eq)
  from status conv once frame outside closed fixed once_main closed_main
  show ?thesis by blast
qed

text \<open>
  C10. With the pair \<open>(5, 55)\<close> of the source, \<^verbatim>\<open>main\<close> returns exactly 1.
\<close>

theorem main_returns_1:
  "fst (main p s) = Inr 1"
  by (simp add: main_def driver_eq int_of_bool_def)

end
